theory Spec2Isabelle
  imports Main
begin

section \<open>Objects read and written by the hub cluster controller\<close>

text \<open>
  The controller of \<^verbatim>\<open>pkg/cluster/controller.go\<close> reads \<^verbatim>\<open>ManagedCluster\<close> and
  \<^verbatim>\<open>ManifestWork\<close> objects and writes \<^verbatim>\<open>ManifestWork\<close> objects. Only the fields the
  controller touches are kept. A Go \<^verbatim>\<open>map[string]string\<close> may be nil, so a map field is an
  optional partial function, and a Go pointer \<^verbatim>\<open>*string\<close> is a \<open>string option\<close>.
\<close>

record ObjectMeta =
  Name :: string
  Namespace :: string
  ResourceVersion :: string
  Labels :: "(string \<rightharpoonup> string) option"
  Annotations :: "(string \<rightharpoonup> string) option"

text \<open>
  Indexing a Go map yields the zero value of the element type, here the empty string, when
  the key is missing or the map is nil.
\<close>

definition index :: "(string \<rightharpoonup> string) option \<Rightarrow> string \<Rightarrow> string" where
  "index m k = (case m of None \<Rightarrow> [] | Some f \<Rightarrow> (case f k of None \<Rightarrow> [] | Some v \<Rightarrow> v))"

text \<open>
  One entry of \<^verbatim>\<open>StatusFeedbacks.Values\<close>: \<open>FeedbackName\<close> is \<^verbatim>\<open>value.Name\<close> and
  \<open>StringPtr\<close> is the pointer \<^verbatim>\<open>value.Value.String\<close>.
\<close>

record FeedbackValue =
  FeedbackName :: string
  StringPtr :: "string option"

text \<open>
  One entry of \<^verbatim>\<open>Status.ResourceStatus.Manifests\<close>: \<open>Kind\<close> is
  \<^verbatim>\<open>conditions.ResourceMeta.Kind\<close> and \<open>Values\<close> is \<^verbatim>\<open>conditions.StatusFeedbacks.Values\<close>.
\<close>

record ManifestCondition =
  Kind :: string
  Values :: "FeedbackValue list"

text \<open>
  A \<^verbatim>\<open>ManifestWork\<close>: its metadata, its payload (opaque to the controller) and the
  manifest conditions of its status, \<^verbatim>\<open>Status.ResourceStatus.Manifests\<close>.
\<close>

record ManifestWork =
  ObjectMeta :: ObjectMeta
  Spec :: string
  Manifests :: "ManifestCondition list"

record ManagedCluster =
  ClusterMeta :: ObjectMeta

section \<open>Errors\<close>

text \<open>
  A Go \<^verbatim>\<open>error\<close> value that is not nil. \<^verbatim>\<open>errors.IsNotFound\<close> recognises the errors of
  the API machinery whose reason is not-found. A call that returns \<^verbatim>\<open>(x, err)\<close> is a
  value of \<open>error + 'a\<close>: \<open>Inl err\<close> for a non-nil error, \<open>Inr x\<close> for a nil one.
\<close>

datatype error = NotFound string | Failed string

fun IsNotFound :: "error \<Rightarrow> bool" where
  "IsNotFound (NotFound _) = True"
| "IsNotFound (Failed _) = False"

section \<open>The rest of package cluster\<close>

text \<open>
  \<^verbatim>\<open>controller.go\<close> uses two constants and three functions of its package that are
  declared in other files. They are parameters of the model: the two suffixes of the work
  object names, the two builders of the desired work objects and the comparison of an
  existing work object with a desired one. The builders and the comparison are taken as
  functions of their arguments, which leave the objects passed to them unchanged.
\<close>

record package =
  HOH_HUB_CLUSTER_SUBSCRIPTION :: string
  HOH_HUB_CLUSTER_MCH :: string
  CreateSubManifestwork :: "string \<Rightarrow> ManifestWork"
  CreateMCHManifestwork :: "string \<Rightarrow> string \<Rightarrow> error + ManifestWork"
  EnsureManifestWork :: "ManifestWork \<Rightarrow> ManifestWork \<Rightarrow> error + bool"

section \<open>Event filters and queue keys\<close>

text \<open>
  What an informer hands to a filter: an object of one of the two watched kinds, or a value
  that carries no object metadata, on which \<^verbatim>\<open>meta.Accessor\<close> fails.
\<close>

datatype object = ClusterObject ManagedCluster | WorkObject ManifestWork | NoMetadata

fun Accessor :: "object \<Rightarrow> error + ObjectMeta" where
  "Accessor (ClusterObject mc) = Inr (ClusterMeta mc)"
| "Accessor (WorkObject mw) = Inr (ObjectMeta mw)"
| "Accessor NoMetadata = Inl (Failed ''object does not implement the Object interfaces'')"

text \<open>
  The queue key functions drop the error of \<^verbatim>\<open>meta.Accessor\<close> and call a method of the
  accessor: on a failed accessor this is a call on a nil interface, which panics. \<open>None\<close> is
  that panic.
\<close>

definition cluster_queue_key :: "object \<Rightarrow> string option" where
  "cluster_queue_key obj =
     (case Accessor obj of Inl _ \<Rightarrow> None | Inr accessor \<Rightarrow> Some (Name accessor))"

definition cluster_filter :: "object \<Rightarrow> bool" where
  "cluster_filter obj =
     (case Accessor obj of
        Inl err \<Rightarrow> False
      | Inr accessor \<Rightarrow>
          if index (Labels accessor) ''hoh'' = ''disabled'' \<or> Name accessor = ''local-cluster''
          then False else True)"

definition work_queue_key :: "object \<Rightarrow> string option" where
  "work_queue_key obj =
     (case Accessor obj of Inl _ \<Rightarrow> None | Inr accessor \<Rightarrow> Some (Namespace accessor))"

definition work_filter :: "package \<Rightarrow> object \<Rightarrow> bool" where
  "work_filter p obj =
     (case Accessor obj of
        Inl err \<Rightarrow> False
      | Inr accessor \<Rightarrow>
          if Name accessor = Namespace accessor @ ''-'' @ HOH_HUB_CLUSTER_SUBSCRIPTION p \<or>
             Name accessor = Namespace accessor @ ''-'' @ HOH_HUB_CLUSTER_MCH p
          then True else False)"

text \<open>
  \<^verbatim>\<open>WithFilteredEventsInformersQueueKeyFunc(queueKeyFn, filter, informer)\<close> of the
  controller factory: a change notification that the filter rejects is dropped, and for one
  that it admits the key function gives the key put on the queue.
\<close>

datatype routed = Dropped | Enqueued string | KeyPanic

definition filtered_events :: "(object \<Rightarrow> string option) \<Rightarrow> (object \<Rightarrow> bool) \<Rightarrow> object \<Rightarrow> routed" where
  "filtered_events queueKeyFn filter_fn obj =
     (if filter_fn obj
      then (case queueKeyFn obj of None \<Rightarrow> KeyPanic | Some k \<Rightarrow> Enqueued k)
      else Dropped)"

definition cluster_events :: "object \<Rightarrow> routed" where
  "cluster_events = filtered_events cluster_queue_key cluster_filter"

definition work_events :: "package \<Rightarrow> object \<Rightarrow> routed" where
  "work_events p = filtered_events work_queue_key (work_filter p)"

section \<open>The controller\<close>

text \<open>
  The work client \<^verbatim>\<open>workclient.ManifestWorks(namespace)\<close>: the reply of the API server to
  a create and to an update call, by namespace and object sent. The listers
  \<^verbatim>\<open>clusterLister.Get(name)\<close> and \<^verbatim>\<open>workLister.ManifestWorks(namespace).Get(name)\<close> read
  the informer caches. The resource cache holds pairs of strings; the constructor fills the
  field with \<^verbatim>\<open>resourceapply.NewResourceCache()\<close>, an empty cache. The event recorder is
  only used for the controller's name and is left out.
\<close>

record WorkV1Interface =
  Create :: "string \<Rightarrow> ManifestWork \<Rightarrow> error + ManifestWork"
  Update :: "string \<Rightarrow> ManifestWork \<Rightarrow> error + ManifestWork"

type_synonym ResourceCache = "(string \<times> string) list"

definition NewResourceCache :: ResourceCache where
  "NewResourceCache = []"

record clusterController =
  workclient :: WorkV1Interface
  clusterLister :: "string \<Rightarrow> error + ManagedCluster"
  workLister :: "string \<Rightarrow> string \<Rightarrow> error + ManifestWork"
  cache :: ResourceCache

text \<open>
  Lines 37 to 43 of \<^verbatim>\<open>NewHubClusterController\<close>: the controller value built from the
  work client and the listers of the two informers, with a new, empty resource cache. The
  event wiring of lines 44 to 80 is \<open>cluster_events\<close> and \<open>work_events\<close> above.
\<close>

definition NewHubClusterController ::
  "WorkV1Interface \<Rightarrow> (string \<Rightarrow> error + ManagedCluster) \<Rightarrow>
   (string \<Rightarrow> string \<Rightarrow> error + ManifestWork) \<Rightarrow> clusterController" where
  "NewHubClusterController workclient' clusterInformerLister workInformerLister =
     \<lparr>workclient = workclient',
      clusterLister = clusterInformerLister,
      workLister = workInformerLister,
      cache = NewResourceCache\<rparr>"

text \<open>
  What one run of \<^verbatim>\<open>sync\<close> does and returns. \<open>calls\<close> lists the create and update calls
  sent to the work client, in order, each with the stage whose code sent it, the namespace
  and the object; \<open>compares\<close> lists the calls of \<^verbatim>\<open>EnsureManifestWork\<close>, in order, each with
  its stage and its two arguments. \<open>result\<close> is the error returned (\<open>None\<close> is nil), or the
  panic of a nil pointer dereference.
\<close>

datatype stage = Subscription | MCH

datatype call = CreateCall stage string ManifestWork | UpdateCall stage string ManifestWork

datatype result = Return "error option" | Panic

record outcome =
  calls :: "call list"
  compares :: "(stage \<times> ManifestWork \<times> ManifestWork) list"
  result :: result

definition returning :: "error option \<Rightarrow> outcome" where
  "returning err = \<lparr>calls = [], compares = [], result = Return err\<rparr>"

definition panicking :: outcome where
  "panicking = \<lparr>calls = [], compares = [], result = Panic\<rparr>"

definition after_call :: "call \<Rightarrow> outcome \<Rightarrow> outcome" where
  "after_call w out = out\<lparr>calls := w # calls out\<rparr>"

definition after_compare :: "stage \<Rightarrow> ManifestWork \<Rightarrow> ManifestWork \<Rightarrow> outcome \<Rightarrow> outcome" where
  "after_compare s existing desired out = out\<lparr>compares := (s, existing, desired) # compares out\<rparr>"

text \<open>
  Lines 129 to 164 of \<^verbatim>\<open>sync\<close>, the body run when the feedback scan finds the state
  \<^verbatim>\<open>AtLatestKnown\<close>: first the local variable \<^verbatim>\<open>userDefinedMCH\<close> of lines 130 to 133,
  then the rest. Every path of the body returns from \<^verbatim>\<open>sync\<close>. In the not-found branch
  the error of the create call is a new variable of the inner block, so the test that
  follows the branch reads the error of the lookup.
\<close>

definition userDefinedMCH :: "ManagedCluster \<Rightarrow> string" where
  "userDefinedMCH managedCluster =
     (if Annotations (ClusterMeta managedCluster) \<noteq> None
      then index (Annotations (ClusterMeta managedCluster)) ''mch'' else [])"

definition sync_mch :: "package \<Rightarrow> clusterController \<Rightarrow> string \<Rightarrow> ManagedCluster \<Rightarrow> outcome" where
  "sync_mch p c managedClusterName managedCluster =
     (case CreateMCHManifestwork p managedClusterName (userDefinedMCH managedCluster) of
        Inl err \<Rightarrow> returning (Some err)
      | Inr desiredMCH \<Rightarrow>
          (case workLister c managedClusterName (managedClusterName @ ''-'' @ HOH_HUB_CLUSTER_MCH p) of
             Inl err \<Rightarrow>
               if IsNotFound err
               then after_call (CreateCall MCH managedClusterName desiredMCH)
                      (case Create (workclient c) managedClusterName desiredMCH of
                         Inl err' \<Rightarrow> returning (Some err')
                       | Inr _ \<Rightarrow> returning (Some err))
               else returning (Some err)
           | Inr mch \<Rightarrow>
               after_compare MCH mch desiredMCH
                 (case EnsureManifestWork p mch desiredMCH of
                    Inl err \<Rightarrow> returning (Some err)
                  | Inr updated \<Rightarrow>
                      if updated
                      then (let desiredMCH' = desiredMCH\<lparr>ObjectMeta := (ObjectMeta desiredMCH)
                                   \<lparr>ResourceVersion := ResourceVersion (ObjectMeta mch)\<rparr>\<rparr>
                            in after_call (UpdateCall MCH managedClusterName desiredMCH')
                                 (case Update (workclient c) managedClusterName desiredMCH' of
                                    Inl err \<Rightarrow> returning (Some err)
                                  | Inr _ \<Rightarrow> returning None))
                      else returning None)))"

text \<open>
  The inner loop of the scan, over the feedback values of one manifest condition. \<open>body\<close> is
  the outcome of lines 129 to 164. \<open>None\<close> means that the loop ended without returning. The
  name is tested first; only for a value named \<^verbatim>\<open>state\<close> the string pointer is
  dereferenced, and a nil pointer panics there.
\<close>

fun scan_values :: "outcome \<Rightarrow> FeedbackValue list \<Rightarrow> outcome option" where
  "scan_values body [] = None"
| "scan_values body (v # vs) =
     (if FeedbackName v = ''state''
      then (case StringPtr v of
              None \<Rightarrow> Some panicking
            | Some s \<Rightarrow> if s = ''AtLatestKnown'' then Some body else scan_values body vs)
      else scan_values body vs)"

text \<open>The outer loop, over the manifest conditions, and the \<^verbatim>\<open>return nil\<close> after it.\<close>

fun scan_manifests :: "outcome \<Rightarrow> ManifestCondition list \<Rightarrow> outcome" where
  "scan_manifests body [] = returning None"
| "scan_manifests body (conditions # rest) =
     (if Kind conditions = ''Subscription''
      then (case scan_values body (Values conditions) of
              Some out \<Rightarrow> out
            | None \<Rightarrow> scan_manifests body rest)
      else scan_manifests body rest)"

text \<open>The whole of \<^verbatim>\<open>sync\<close>; \<open>managedClusterName\<close> is the queue key.\<close>

definition sync :: "package \<Rightarrow> clusterController \<Rightarrow> string \<Rightarrow> outcome" where
  "sync p c managedClusterName =
     (case clusterLister c managedClusterName of
        Inl err \<Rightarrow> if IsNotFound err then returning None else returning (Some err)
      | Inr managedCluster \<Rightarrow>
          (let desiredSubscription = CreateSubManifestwork p managedClusterName
           in case workLister c managedClusterName
                     (managedClusterName @ ''-'' @ HOH_HUB_CLUSTER_SUBSCRIPTION p) of
                Inl err \<Rightarrow>
                  if IsNotFound err
                  then after_call (CreateCall Subscription managedClusterName desiredSubscription)
                         (case Create (workclient c) managedClusterName desiredSubscription of
                            Inl err' \<Rightarrow> returning (Some err')
                          | Inr _ \<Rightarrow> returning None)
                  else returning (Some err)
              | Inr subscription \<Rightarrow>
                  after_compare Subscription subscription desiredSubscription
                    (case EnsureManifestWork p subscription desiredSubscription of
                       Inl err \<Rightarrow> returning (Some err)
                     | Inr updated \<Rightarrow>
                         (let gate = scan_manifests
                                       (sync_mch p c managedClusterName managedCluster)
                                       (Manifests subscription)
                          in if updated
                             then (let desiredSubscription' =
                                         desiredSubscription\<lparr>ObjectMeta := (ObjectMeta desiredSubscription)
                                           \<lparr>ResourceVersion := ResourceVersion (ObjectMeta subscription)\<rparr>\<rparr>
                                   in after_call (UpdateCall Subscription managedClusterName desiredSubscription')
                                        (case Update (workclient c) managedClusterName desiredSubscription' of
                                           Inl err \<Rightarrow> returning (Some err)
                                         | Inr _ \<Rightarrow> gate))
                             else gate))))"

section \<open>Notions used to state the properties\<close>

text \<open>
  What the feedback scan decides, apart from the body it runs: it proceeds to the body,
  it stops without running it, or it dereferences a nil string pointer.
\<close>

datatype verdict = Proceed | Stop | NilDereference

fun values_verdict :: "FeedbackValue list \<Rightarrow> verdict" where
  "values_verdict [] = Stop"
| "values_verdict (v # vs) =
     (if FeedbackName v = ''state''
      then (case StringPtr v of
              None \<Rightarrow> NilDereference
            | Some s \<Rightarrow> if s = ''AtLatestKnown'' then Proceed else values_verdict vs)
      else values_verdict vs)"

fun manifests_verdict :: "ManifestCondition list \<Rightarrow> verdict" where
  "manifests_verdict [] = Stop"
| "manifests_verdict (m # ms) =
     (if Kind m = ''Subscription''
      then (case values_verdict (Values m) of
              Stop \<Rightarrow> manifests_verdict ms
            | Proceed \<Rightarrow> Proceed
            | NilDereference \<Rightarrow> NilDereference)
      else manifests_verdict ms)"

text \<open>The name suffix of the work object of a stage, and the parts of a call.\<close>

fun stage_suffix :: "package \<Rightarrow> stage \<Rightarrow> string" where
  "stage_suffix p Subscription = HOH_HUB_CLUSTER_SUBSCRIPTION p"
| "stage_suffix p MCH = HOH_HUB_CLUSTER_MCH p"

fun call_stage :: "call \<Rightarrow> stage" where
  "call_stage (CreateCall s ns w) = s"
| "call_stage (UpdateCall s ns w) = s"

fun call_namespace :: "call \<Rightarrow> string" where
  "call_namespace (CreateCall s ns w) = ns"
| "call_namespace (UpdateCall s ns w) = ns"

fun call_object :: "call \<Rightarrow> ManifestWork" where
  "call_object (CreateCall s ns w) = w"
| "call_object (UpdateCall s ns w) = w"

text \<open>The reply of the work client to a call.\<close>

fun reply :: "clusterController \<Rightarrow> call \<Rightarrow> error + ManifestWork" where
  "reply c (CreateCall s ns w) = Create (workclient c) ns w"
| "reply c (UpdateCall s ns w) = Update (workclient c) ns w"

text \<open>
  The controller at its next run, when nothing but its own calls has changed the hub: a call
  that failed changes nothing, and after a call that succeeded the work lister returns the
  object of the reply under the namespace of the call and the name of the object sent.
  \<^verbatim>\<open>sync\<close> assigns to no field of the controller, so the work client, the cluster lister
  and the resource cache are the same at the next run.
\<close>

definition observe :: "clusterController \<Rightarrow> call \<Rightarrow> clusterController" where
  "observe c w =
     (case reply c w of
        Inl err \<Rightarrow> c
      | Inr stored \<Rightarrow>
          c\<lparr>workLister := (\<lambda>ns n. if ns = call_namespace w \<and> n = Name (ObjectMeta (call_object w))
                                    then Inr stored else workLister c ns n)\<rparr>)"

definition settled :: "package \<Rightarrow> clusterController \<Rightarrow> string \<Rightarrow> clusterController" where
  "settled p c k = foldl observe c (calls (sync p c k))"

section \<open>An example hub\<close>

text \<open>
  A package with short suffixes, builders that follow the naming convention and a comparison
  of the payloads; a store of clusters and of work objects read by the listers; an API
  server that accepts every create call and every update of a stored object, and one that
  refuses every call.
\<close>

definition example_meta :: "string \<Rightarrow> string \<Rightarrow> string \<Rightarrow> ObjectMeta" where
  "example_meta ns n rv =
     \<lparr>Name = n, Namespace = ns, ResourceVersion = rv, Labels = None, Annotations = None\<rparr>"

definition example_package :: package where
  "example_package =
     \<lparr>HOH_HUB_CLUSTER_SUBSCRIPTION = ''sub'',
      HOH_HUB_CLUSTER_MCH = ''mch'',
      CreateSubManifestwork = (\<lambda>cluster.
        \<lparr>ObjectMeta = example_meta cluster (cluster @ ''-sub'') [],
         Spec = ''subscription'', Manifests = []\<rparr>),
      CreateMCHManifestwork = (\<lambda>cluster override.
        if override = ''invalid'' then Inl (Failed ''invalid mch'')
        else Inr \<lparr>ObjectMeta = example_meta cluster (cluster @ ''-mch'') [],
                  Spec = ''mch '' @ override, Manifests = []\<rparr>),
      EnsureManifestWork = (\<lambda>existing desired. Inr (Spec existing \<noteq> Spec desired))\<rparr>"

definition cluster_store :: "ManagedCluster list \<Rightarrow> string \<Rightarrow> error + ManagedCluster" where
  "cluster_store clusters n =
     (case find (\<lambda>mc. Name (ClusterMeta mc) = n) clusters of
        None \<Rightarrow> Inl (NotFound n) | Some mc \<Rightarrow> Inr mc)"

definition work_store :: "ManifestWork list \<Rightarrow> string \<Rightarrow> string \<Rightarrow> error + ManifestWork" where
  "work_store works ns n =
     (case find (\<lambda>w. Namespace (ObjectMeta w) = ns \<and> Name (ObjectMeta w) = n) works of
        None \<Rightarrow> Inl (NotFound n) | Some w \<Rightarrow> Inr w)"

definition api_server :: "ManifestWork list \<Rightarrow> WorkV1Interface" where
  "api_server works =
     \<lparr>Create = (\<lambda>ns w. Inr (w\<lparr>ObjectMeta := (ObjectMeta w)\<lparr>ResourceVersion := ''1''\<rparr>,
                              Manifests := []\<rparr>)),
      Update = (\<lambda>ns w. case work_store works ns (Name (ObjectMeta w)) of
                          Inl err \<Rightarrow> Inl err
                        | Inr existing \<Rightarrow>
                            Inr (w\<lparr>ObjectMeta := (ObjectMeta w)
                                     \<lparr>ResourceVersion := ResourceVersion (ObjectMeta w) @ ''1''\<rparr>,
                                   Manifests := Manifests existing\<rparr>))\<rparr>"

definition refusing_server :: WorkV1Interface where
  "refusing_server =
     \<lparr>Create = (\<lambda>ns w. Inl (Failed ''forbidden'')),
      Update = (\<lambda>ns w. Inl (Failed ''forbidden''))\<rparr>"

definition example_cluster :: "string \<Rightarrow> (string \<rightharpoonup> string) option \<Rightarrow> ManagedCluster" where
  "example_cluster n ls =
     \<lparr>ClusterMeta = \<lparr>Name = n, Namespace = [], ResourceVersion = ''3'', Labels = ls,
                     Annotations = None\<rparr>\<rparr>"

definition cluster1 :: ManagedCluster where
  "cluster1 = example_cluster ''cluster1'' None"

definition example_feedback :: "string option \<Rightarrow> ManifestCondition" where
  "example_feedback state =
     \<lparr>Kind = ''Subscription'', Values = [\<lparr>FeedbackName = ''state'', StringPtr = state\<rparr>]\<rparr>"

definition subscription_work :: "string \<Rightarrow> string option \<Rightarrow> ManifestWork" where
  "subscription_work payload state =
     \<lparr>ObjectMeta = example_meta ''cluster1'' ''cluster1-sub'' ''41'',
      Spec = payload,
      Manifests = [example_feedback state]\<rparr>"

definition mch_work :: "string \<Rightarrow> ManifestWork" where
  "mch_work payload =
     \<lparr>ObjectMeta = example_meta ''cluster1'' ''cluster1-mch'' ''7'',
      Spec = payload,
      Manifests = []\<rparr>"

definition example_hub :: "ManifestWork list \<Rightarrow> clusterController" where
  "example_hub works =
     NewHubClusterController (api_server works) (cluster_store [cluster1]) (work_store works)"

definition refusing_hub :: clusterController where
  "refusing_hub =
     NewHubClusterController refusing_server (cluster_store [cluster1]) (work_store [])"

text \<open>
  An API server whose reply to an update reports a given state, and a hub whose stored
  stage-1 work object differs from the desired one and reports another state.
\<close>

definition reporting_server :: "string \<Rightarrow> WorkV1Interface" where
  "reporting_server state =
     \<lparr>Create = (\<lambda>ns w. Inr w),
      Update = (\<lambda>ns w. Inr (w\<lparr>Manifests := [example_feedback (Some state)]\<rparr>))\<rparr>"

definition reporting_hub :: "string \<Rightarrow> string \<Rightarrow> clusterController" where
  "reporting_hub stored_state reply_state =
     NewHubClusterController (reporting_server reply_state) (cluster_store [cluster1])
       (work_store [subscription_work ''old'' (Some stored_state)])"

definition unsynced_hub :: clusterController where
  "unsynced_hub =
     NewHubClusterController (api_server []) (\<lambda>n. Inl (Failed ''cache not synced'')) (work_store [])"

lemmas example_defs =
  example_hub_def refusing_hub_def reporting_hub_def unsynced_hub_def
  NewHubClusterController_def NewResourceCache_def
  example_package_def cluster_store_def work_store_def api_server_def refusing_server_def
  reporting_server_def cluster1_def example_cluster_def subscription_work_def mch_work_def
  example_feedback_def example_meta_def

lemmas sync_defs =
  sync_def sync_mch_def userDefinedMCH_def index_def
  returning_def panicking_def after_call_def after_compare_def

section \<open>Lemmas about the model\<close>

lemma outcome_simps [simp]:
  "calls (returning e) = []" "compares (returning e) = []" "result (returning e) = Return e"
  "calls panicking = []" "compares panicking = []" "result panicking = Panic"
  "calls (after_call w out) = w # calls out" "compares (after_call w out) = compares out"
  "result (after_call w out) = result out"
  "calls (after_compare s x d out) = calls out"
  "compares (after_compare s x d out) = (s, x, d) # compares out"
  "result (after_compare s x d out) = result out"
  by (simp_all add: returning_def panicking_def after_call_def after_compare_def)

lemma scan_values_verdict:
  "scan_values body vs =
     (case values_verdict vs of Proceed \<Rightarrow> Some body | Stop \<Rightarrow> None | NilDereference \<Rightarrow> Some panicking)"
  by (induction vs) (auto split: option.splits)

lemma scan_manifests_verdict:
  "scan_manifests body ms =
     (case manifests_verdict ms of
        Proceed \<Rightarrow> body | Stop \<Rightarrow> returning None | NilDereference \<Rightarrow> panicking)"
  by (induction ms) (auto simp: scan_values_verdict split: verdict.splits)

lemma values_verdict_Proceed:
  "values_verdict vs = Proceed \<Longrightarrow>
     \<exists>v\<in>set vs. FeedbackName v = ''state'' \<and> StringPtr v = Some ''AtLatestKnown''"
  by (induction vs) (auto split: if_splits option.splits)

lemma manifests_verdict_Proceed:
  "manifests_verdict ms = Proceed \<Longrightarrow>
     \<exists>m\<in>set ms. Kind m = ''Subscription'' \<and>
        (\<exists>v\<in>set (Values m). FeedbackName v = ''state'' \<and> StringPtr v = Some ''AtLatestKnown'')"
proof (induction ms)
  case Nil
  then show ?case by simp
next
  case (Cons m ms)
  show ?case
  proof (cases "Kind m = ''Subscription'' \<and> values_verdict (Values m) = Proceed")
    case True
    then show ?thesis using values_verdict_Proceed [of "Values m"] by auto
  next
    case False
    with Cons.prems have "manifests_verdict ms = Proceed"
      by (auto split: if_splits verdict.splits)
    with Cons.IH show ?thesis by auto
  qed
qed

lemma values_verdict_NilDereference:
  "values_verdict vs = NilDereference \<Longrightarrow>
     \<exists>v\<in>set vs. FeedbackName v = ''state'' \<and> StringPtr v = None"
  by (induction vs) (auto split: if_splits option.splits)

lemma manifests_verdict_NilDereference:
  "manifests_verdict ms = NilDereference \<Longrightarrow>
     \<exists>m\<in>set ms. Kind m = ''Subscription'' \<and>
        (\<exists>v\<in>set (Values m). FeedbackName v = ''state'' \<and> StringPtr v = None)"
proof (induction ms)
  case Nil
  then show ?case by simp
next
  case (Cons m ms)
  show ?case
  proof (cases "Kind m = ''Subscription'' \<and> values_verdict (Values m) = NilDereference")
    case True
    then show ?thesis using values_verdict_NilDereference [of "Values m"] by auto
  next
    case False
    with Cons.prems have "manifests_verdict ms = NilDereference"
      by (auto split: if_splits verdict.splits)
    with Cons.IH show ?thesis by auto
  qed
qed

text \<open>An update call of the stage-2 body carries the resource version of the object it read.\<close>

lemma sync_mch_update:
  "UpdateCall s ns w \<in> set (calls (sync_mch p c k mc)) \<Longrightarrow>
     s = MCH \<and> ns = k \<and>
     (\<exists>existing. workLister c k (k @ ''-'' @ HOH_HUB_CLUSTER_MCH p) = Inr existing \<and>
        ResourceVersion (ObjectMeta w) = ResourceVersion (ObjectMeta existing))"
  by (auto simp: sync_mch_def Let_def split: sum.splits if_splits)

text \<open>Where a call of one run comes from.\<close>

lemma sync_call_origin:
  assumes "w \<in> set (calls (sync p c k))"
  shows "(\<exists>err. workLister c k (k @ ''-'' @ HOH_HUB_CLUSTER_SUBSCRIPTION p) = Inl err \<and>
            w = CreateCall Subscription k (CreateSubManifestwork p k)) \<or>
         (\<exists>subscription. workLister c k (k @ ''-'' @ HOH_HUB_CLUSTER_SUBSCRIPTION p) = Inr subscription \<and>
            w = UpdateCall Subscription k
                  ((CreateSubManifestwork p k)\<lparr>ObjectMeta := (ObjectMeta (CreateSubManifestwork p k))
                     \<lparr>ResourceVersion := ResourceVersion (ObjectMeta subscription)\<rparr>\<rparr>)) \<or>
         (\<exists>subscription mc. workLister c k (k @ ''-'' @ HOH_HUB_CLUSTER_SUBSCRIPTION p) = Inr subscription \<and>
            clusterLister c k = Inr mc \<and> manifests_verdict (Manifests subscription) = Proceed \<and>
            w \<in> set (calls (sync_mch p c k mc)))"
  using assms
  by (auto simp: sync_def Let_def scan_manifests_verdict
           split: sum.splits if_splits verdict.splits)

text \<open>Where a comparison of one run comes from.\<close>

lemma sync_compare_origin:
  assumes "x \<in> set (compares (sync p c k))"
  shows "fst x = Subscription \<or>
         (\<exists>subscription. workLister c k (k @ ''-'' @ HOH_HUB_CLUSTER_SUBSCRIPTION p) = Inr subscription \<and>
            manifests_verdict (Manifests subscription) = Proceed)"
  using assms
  by (auto simp: sync_def Let_def scan_manifests_verdict
           split: sum.splits if_splits verdict.splits)

lemma sync_mch_no_panic: "result (sync_mch p c k mc) \<noteq> Panic"
  by (auto simp: sync_mch_def Let_def split: sum.splits)

lemma values_verdict_reaches_nil:
  assumes "\<forall>v'\<in>set vbefore. FeedbackName v' = ''state'' \<longrightarrow>
             (\<exists>s. StringPtr v' = Some s \<and> s \<noteq> ''AtLatestKnown'')"
    and "FeedbackName v = ''state''" and "StringPtr v = None"
  shows "values_verdict (vbefore @ v # vafter) = NilDereference"
  using assms by (induction vbefore) auto

lemma values_verdict_Stop:
  assumes "\<forall>v\<in>set vs. FeedbackName v = ''state'' \<longrightarrow>
             (\<exists>s. StringPtr v = Some s \<and> s \<noteq> ''AtLatestKnown'')"
  shows "values_verdict vs = Stop"
  using assms by (induction vs) auto

lemma manifests_verdict_reaches_nil:
  assumes "\<forall>m'\<in>set before. Kind m' = ''Subscription'' \<longrightarrow>
             (\<forall>v'\<in>set (Values m'). FeedbackName v' = ''state'' \<longrightarrow>
                (\<exists>s. StringPtr v' = Some s \<and> s \<noteq> ''AtLatestKnown''))"
    and "Kind m = ''Subscription''" and "values_verdict (Values m) = NilDereference"
  shows "manifests_verdict (before @ m # after) = NilDereference"
  using assms by (induction before) (auto simp: values_verdict_Stop)




lemma sync_result_at_gate:
  assumes "clusterLister c k = Inr mc"
    and "workLister c k (k @ ''-'' @ HOH_HUB_CLUSTER_SUBSCRIPTION p) = Inr subscription"
    and "EnsureManifestWork p subscription (CreateSubManifestwork p k) = Inr updated"
    and "updated \<longrightarrow> (\<exists>refreshed. Update (workclient c) k
            ((CreateSubManifestwork p k)\<lparr>ObjectMeta := (ObjectMeta (CreateSubManifestwork p k))
               \<lparr>ResourceVersion := ResourceVersion (ObjectMeta subscription)\<rparr>\<rparr>) = Inr refreshed)"
  shows "result (sync p c k) = result (scan_manifests (sync_mch p c k mc) (Manifests subscription))"
  using assms by (auto simp: sync_def Let_def)

lemma sync_panic_origin:
  assumes "result (sync p c k) = Panic"
  shows "\<exists>subscription. workLister c k (k @ ''-'' @ HOH_HUB_CLUSTER_SUBSCRIPTION p) = Inr subscription \<and>
           manifests_verdict (Manifests subscription) = NilDereference"
  using assms sync_mch_no_panic [of p c k]
  by (auto simp: sync_def Let_def scan_manifests_verdict
           split: sum.splits if_splits verdict.splits)

lemma observe_simps [simp]:
  "clusterLister (observe c w) = clusterLister c"
  "workclient (observe c w) = workclient c"
  "cache (observe c w) = cache c"
  by (auto simp: observe_def split: sum.splits)

lemma workLister_observe:
  "workLister (observe c w) ns n =
     (case reply c w of
        Inl err \<Rightarrow> workLister c ns n
      | Inr stored \<Rightarrow> if ns = call_namespace w \<and> n = Name (ObjectMeta (call_object w))
                      then Inr stored else workLister c ns n)"
  by (auto simp: observe_def split: sum.splits)

lemma sync_mch_cong:
  assumes "workclient c' = workclient c"
    and "workLister c' k (k @ ''-'' @ HOH_HUB_CLUSTER_MCH p) = workLister c k (k @ ''-'' @ HOH_HUB_CLUSTER_MCH p)"
  shows "sync_mch p c' k mc = sync_mch p c k mc"
  by (simp only: sync_mch_def assms)

lemma sync_mch_calls_shape:
  "calls (sync_mch p c k mc) = [] \<or>
   (\<exists>w override desired. calls (sync_mch p c k mc) = [w] \<and> call_namespace w = k \<and>
      CreateMCHManifestwork p k override = Inr desired \<and>
      Name (ObjectMeta (call_object w)) = Name (ObjectMeta desired))"
  by (auto simp: sync_mch_def Let_def split: sum.splits)

lemma sync_mch_settled:
  assumes succeeded: "\<forall>w\<in>set (calls (sync_mch p c k mc)). \<exists>stored. reply c w = Inr stored"
    and mch_name: "\<forall>override desired. CreateMCHManifestwork p k override = Inr desired \<longrightarrow>
                     Name (ObjectMeta desired) = k @ ''-'' @ HOH_HUB_CLUSTER_MCH p"
    and created_equal: "\<forall>ns desired stored. Create (workclient c) ns desired = Inr stored \<longrightarrow>
                     EnsureManifestWork p stored desired = Inr False"
    and updated_equal: "\<forall>ns desired rv stored.
                     Update (workclient c) ns (desired\<lparr>ObjectMeta := (ObjectMeta desired)\<lparr>ResourceVersion := rv\<rparr>\<rparr>) = Inr stored \<longrightarrow>
                     EnsureManifestWork p stored desired = Inr False"
  shows "calls (sync_mch p (foldl observe c (calls (sync_mch p c k mc))) k mc) = []"
proof (cases "CreateMCHManifestwork p k (userDefinedMCH mc)")
  case (Inl err)
  then show ?thesis by (simp add: sync_mch_def)
next
  case (Inr desired)
  with mch_name have name: "Name (ObjectMeta desired) = k @ ''-'' @ HOH_HUB_CLUSTER_MCH p"
    by blast
  show ?thesis
  proof (cases "workLister c k (k @ ''-'' @ HOH_HUB_CLUSTER_MCH p)")
    case lookup: (Inl err)
    show ?thesis
    proof (cases "IsNotFound err")
      case True
      with Inr lookup have first: "calls (sync_mch p c k mc) = [CreateCall MCH k desired]"
        by (simp add: sync_mch_def split: sum.splits)
      with succeeded obtain stored where stored: "Create (workclient c) k desired = Inr stored"
        by auto
      with created_equal have equal: "EnsureManifestWork p stored desired = Inr False"
        by blast
      have "calls (sync_mch p (observe c (CreateCall MCH k desired)) k mc) = []"
        using Inr stored name equal by (simp add: sync_mch_def workLister_observe)
      then show ?thesis by (simp add: first)
    next
      case False
      with Inr lookup show ?thesis
        by (simp add: sync_mch_def)
    qed
  next
    case lookup: (Inr mch)
    show ?thesis
    proof (cases "EnsureManifestWork p mch desired")
      case (Inl err)
      with Inr lookup show ?thesis
        by (simp add: sync_mch_def)
    next
      case ensure: (Inr updated)
      show ?thesis
      proof (cases updated)
        case True
        define desired' where "desired' = desired\<lparr>ObjectMeta := (ObjectMeta desired)
                                    \<lparr>ResourceVersion := ResourceVersion (ObjectMeta mch)\<rparr>\<rparr>"
        from True Inr lookup ensure have first: "calls (sync_mch p c k mc) = [UpdateCall MCH k desired']"
          by (simp add: sync_mch_def Let_def desired'_def split: sum.splits)
        with succeeded obtain stored where stored: "Update (workclient c) k desired' = Inr stored"
          by auto
        with updated_equal have equal: "EnsureManifestWork p stored desired = Inr False"
          unfolding desired'_def by blast
        have name': "Name (ObjectMeta desired') = k @ ''-'' @ HOH_HUB_CLUSTER_MCH p"
          using name by (simp add: desired'_def)
        have "calls (sync_mch p (observe c (UpdateCall MCH k desired')) k mc) = []"
          using Inr stored name' equal by (simp add: sync_mch_def workLister_observe)
        then show ?thesis by (simp add: first)
      next
        case False
        with Inr lookup ensure show ?thesis
          by (simp add: sync_mch_def)
      qed
    qed
  qed
qed

lemma foldl_observe_simps [simp]:
  "clusterLister (foldl observe c ws) = clusterLister c"
  "workclient (foldl observe c ws) = workclient c"
  "cache (foldl observe c ws) = cache c"
  by (induction ws arbitrary: c) simp_all

lemma reply_cong: "workclient c' = workclient c \<Longrightarrow> reply c' w = reply c w"
  by (cases w) simp_all

lemma sync_converged:
  assumes "clusterLister c k = Inr mc"
    and "workLister c k (k @ ''-'' @ HOH_HUB_CLUSTER_SUBSCRIPTION p) = Inr subscription"
    and "EnsureManifestWork p subscription (CreateSubManifestwork p k) = Inr False"
  shows "calls (sync p c k) =
           (if manifests_verdict (Manifests subscription) = Proceed
            then calls (sync_mch p c k mc) else [])"
  using assms by (simp add: sync_def Let_def scan_manifests_verdict split: verdict.splits)

lemma sync_diverged:
  assumes "clusterLister c k = Inr mc"
    and "workLister c k (k @ ''-'' @ HOH_HUB_CLUSTER_SUBSCRIPTION p) = Inr subscription"
    and "EnsureManifestWork p subscription (CreateSubManifestwork p k) = Inr True"
    and "Update (workclient c) k
           ((CreateSubManifestwork p k)\<lparr>ObjectMeta := (ObjectMeta (CreateSubManifestwork p k))
              \<lparr>ResourceVersion := ResourceVersion (ObjectMeta subscription)\<rparr>\<rparr>) = Inr stored"
  shows "calls (sync p c k) =
           UpdateCall Subscription k
             ((CreateSubManifestwork p k)\<lparr>ObjectMeta := (ObjectMeta (CreateSubManifestwork p k))
                \<lparr>ResourceVersion := ResourceVersion (ObjectMeta subscription)\<rparr>\<rparr>) #
           (if manifests_verdict (Manifests subscription) = Proceed
            then calls (sync_mch p c k mc) else [])"
  using assms by (simp add: sync_def Let_def scan_manifests_verdict split: verdict.splits)

lemma sync_diverged_first:
  assumes "clusterLister c k = Inr mc"
    and "workLister c k (k @ ''-'' @ HOH_HUB_CLUSTER_SUBSCRIPTION p) = Inr subscription"
    and "EnsureManifestWork p subscription (CreateSubManifestwork p k) = Inr True"
  shows "UpdateCall Subscription k
             ((CreateSubManifestwork p k)\<lparr>ObjectMeta := (ObjectMeta (CreateSubManifestwork p k))
                \<lparr>ResourceVersion := ResourceVersion (ObjectMeta subscription)\<rparr>\<rparr>)
           \<in> set (calls (sync p c k))"
  using assms by (simp add: sync_def Let_def)

text \<open>
  The second run, on a controller whose stage-1 object is equal to the desired one and whose
  stage-2 object is as the stage-2 calls of the first run left it.
\<close>

lemma second_run:
  assumes cluster: "clusterLister c1 k = Inr mc"
    and lookup: "workLister c1 k (k @ ''-'' @ HOH_HUB_CLUSTER_SUBSCRIPTION p) = Inr subscription"
    and equal: "EnsureManifestWork p subscription (CreateSubManifestwork p k) = Inr False"
    and ws: "ws = (if manifests_verdict (Manifests subscription) = Proceed
                   then calls (sync_mch p c1 k mc) else [])"
    and succeeded: "\<forall>w\<in>set ws. \<exists>stored. reply c1 w = Inr stored"
    and mch_name: "\<forall>override desired. CreateMCHManifestwork p k override = Inr desired \<longrightarrow>
                     Name (ObjectMeta desired) = k @ ''-'' @ HOH_HUB_CLUSTER_MCH p"
    and suffixes: "HOH_HUB_CLUSTER_SUBSCRIPTION p \<noteq> HOH_HUB_CLUSTER_MCH p"
    and created_equal: "\<forall>ns desired stored. Create (workclient c1) ns desired = Inr stored \<longrightarrow>
                     EnsureManifestWork p stored desired = Inr False"
    and updated_equal: "\<forall>ns desired rv stored.
                     Update (workclient c1) ns (desired\<lparr>ObjectMeta := (ObjectMeta desired)\<lparr>ResourceVersion := rv\<rparr>\<rparr>) = Inr stored \<longrightarrow>
                     EnsureManifestWork p stored desired = Inr False"
  shows "calls (sync p (foldl observe c1 ws) k) = []"
proof (cases "manifests_verdict (Manifests subscription) = Proceed")
  case False
  with ws have "ws = []" by simp
  with cluster lookup equal False show ?thesis
    using sync_converged [of c1 k mc p subscription] by simp
next
  case True
  with ws have ws': "ws = calls (sync_mch p c1 k mc)" by simp
  define c2 where "c2 = foldl observe c1 ws"
  have "workLister c2 k (k @ ''-'' @ HOH_HUB_CLUSTER_SUBSCRIPTION p) =
        workLister c1 k (k @ ''-'' @ HOH_HUB_CLUSTER_SUBSCRIPTION p)"
    using sync_mch_calls_shape [of p c1 k mc] mch_name suffixes
    by (auto simp: c2_def ws' workLister_observe split: sum.splits)
  with lookup have lookup2: "workLister c2 k (k @ ''-'' @ HOH_HUB_CLUSTER_SUBSCRIPTION p) = Inr subscription"
    by simp
  have cluster2: "clusterLister c2 k = Inr mc"
    using cluster by (simp add: c2_def)
  have "calls (sync_mch p c2 k mc) = []"
    unfolding c2_def ws'
    using sync_mch_settled [of p c1 k mc] succeeded mch_name created_equal updated_equal
    by (simp add: ws')
  with cluster2 lookup2 equal show ?thesis
    using sync_converged [of c2 k mc p subscription] by (simp add: c2_def)
qed

text \<open>A run depends on the controller through the work client and the two listers only.\<close>

lemma sync_cong:
  assumes "clusterLister c' = clusterLister c"
    and "workLister c' = workLister c"
    and "workclient c' = workclient c"
  shows "sync p c' k = sync p c k"
proof -
  have "sync_mch p c' k mc = sync_mch p c k mc" for mc
    by (simp only: sync_mch_def assms)
  then show ?thesis
    by (simp only: sync_def assms)
qed

text \<open>The accepting API server of the example and the comparison of the example package.\<close>

lemma api_server_created_equal:
  "Create (api_server works) ns desired = Inr stored \<Longrightarrow>
     EnsureManifestWork example_package stored desired = Inr False"
  by (auto simp: api_server_def example_package_def)

lemma api_server_updated_equal:
  "Update (api_server works) ns
       (desired\<lparr>ObjectMeta := (ObjectMeta desired)\<lparr>ResourceVersion := rv\<rparr>\<rparr>) = Inr stored \<Longrightarrow>
     EnsureManifestWork example_package stored desired = Inr False"
  by (auto simp: api_server_def example_package_def split: sum.splits)

lemma api_server_created_status:
  "Create (api_server works) ns desired = Inr stored \<Longrightarrow> Manifests stored = []"
  by (auto simp: api_server_def)

lemma api_server_updated_status:
  "Update (api_server works) ns w = Inr stored \<Longrightarrow>
     work_store works ns (Name (ObjectMeta w)) = Inr existing \<Longrightarrow>
     Manifests stored = Manifests existing"
  by (auto simp: api_server_def split: sum.splits)

section \<open>Event routing\<close>

text \<open>
  C5. Work-object admission and key derivation: a change notification on the work-object
  watch puts a key on the queue if and only if the metadata of the object can be read and
  the name of the object is its namespace followed by a dash and the subscription suffix,
  or by a dash and the MCH suffix; the key is then the namespace of the object. An object
  whose metadata accessor fails is dropped, and the key function never panics.
\<close>

theorem work_admission:
  "(work_events p obj = Enqueued key \<longleftrightarrow>
      (\<exists>accessor. Accessor obj = Inr accessor \<and>
         (Name accessor = Namespace accessor @ ''-'' @ HOH_HUB_CLUSTER_SUBSCRIPTION p \<or>
          Name accessor = Namespace accessor @ ''-'' @ HOH_HUB_CLUSTER_MCH p) \<and>
         key = Namespace accessor)) \<and>
   (Accessor obj = Inl err \<longrightarrow> work_events p obj = Dropped) \<and>
   work_events p obj \<noteq> KeyPanic"
  by (cases "Accessor obj")
     (auto simp: work_events_def filtered_events_def work_filter_def work_queue_key_def)

theorem work_admission_witness:
  "work_events example_package (WorkObject (mch_work ''payload'')) = Enqueued ''cluster1'' \<and>
   work_events example_package
     (WorkObject \<lparr>ObjectMeta = example_meta ''cluster1'' ''other'' ''5'', Spec = ''payload'',
                  Manifests = []\<rparr>) \<noteq> Enqueued ''cluster1'' \<and>
   work_events example_package NoMetadata = Dropped"
  using work_admission [of example_package "WorkObject (mch_work ''payload'')" "''cluster1''"]
        work_admission [of example_package
          "WorkObject \<lparr>ObjectMeta = example_meta ''cluster1'' ''other'' ''5'', Spec = ''payload'',
                       Manifests = []\<rparr>" "''cluster1''"]
        work_admission [of example_package NoMetadata "''cluster1''"
          "Failed ''object does not implement the Object interfaces''"]
  by (simp add: example_package_def mch_work_def example_meta_def)

text \<open>
  C6, as stated, fails: a change notification whose object carries no metadata (the
  accessor fails on it) has neither the label \<^verbatim>\<open>hoh\<close> nor a name, and the filter rejects
  it all the same.
\<close>

theorem membership_no_metadata_rejected:
  "Accessor NoMetadata = Inl (Failed ''object does not implement the Object interfaces'') \<and>
   cluster_filter NoMetadata = False \<and>
   cluster_events NoMetadata = Dropped"
  by (simp add: cluster_events_def filtered_events_def cluster_filter_def)

text \<open>
  C6, amended. Membership admission: for every change notification on the membership watch,
  the filter rejects the object exactly when its metadata accessor fails, or its label
  \<^verbatim>\<open>hoh\<close> is \<^verbatim>\<open>disabled\<close>, or its name is \<^verbatim>\<open>local-cluster\<close>; a rejected object puts no
  key on the queue, and every other object puts its name on the queue.
\<close>

theorem membership_admission:
  "(cluster_filter obj = False \<longleftrightarrow>
      (\<exists>err. Accessor obj = Inl err) \<or>
      (\<exists>accessor. Accessor obj = Inr accessor \<and>
         (index (Labels accessor) ''hoh'' = ''disabled'' \<or> Name accessor = ''local-cluster''))) \<and>
   (cluster_filter obj = False \<longrightarrow> cluster_events obj = Dropped) \<and>
   (cluster_filter obj = True \<longrightarrow>
      (\<exists>accessor. Accessor obj = Inr accessor \<and> cluster_events obj = Enqueued (Name accessor)))"
  by (cases "Accessor obj")
     (auto simp: cluster_events_def filtered_events_def cluster_filter_def cluster_queue_key_def)

theorem membership_admission_witness:
  "cluster_events (ClusterObject (example_cluster ''cluster1'' (Some [''hoh'' \<mapsto> ''disabled''])))
     = Dropped \<and>
   cluster_events (ClusterObject (example_cluster ''local-cluster'' None)) = Dropped \<and>
   cluster_events NoMetadata = Dropped \<and>
   cluster_events (ClusterObject (example_cluster ''cluster1'' (Some [''hoh'' \<mapsto> ''enabled''])))
     = Enqueued ''cluster1''"
  using membership_admission
          [of "ClusterObject (example_cluster ''cluster1'' (Some [''hoh'' \<mapsto> ''disabled'']))"]
        membership_admission
          [of "ClusterObject (example_cluster ''local-cluster'' None)"]
        membership_admission [of NoMetadata]
        membership_admission
          [of "ClusterObject (example_cluster ''cluster1'' (Some [''hoh'' \<mapsto> ''enabled'']))"]
  by (simp add: example_cluster_def index_def)

section \<open>The staged sync\<close>

text \<open>
  C9. When the lookup of the managed cluster for the queue key fails, \<^verbatim>\<open>sync\<close> sends no
  call and compares nothing; it returns nil when the error is not-found, and returns the
  error of the lookup otherwise.
\<close>

theorem membership_lookup_error:
  "clusterLister c k = Inl err \<Longrightarrow>
     calls (sync p c k) = [] \<and> compares (sync p c k) = [] \<and>
     result (sync p c k) = (if IsNotFound err then Return None else Return (Some err))"
  by (simp add: sync_def)

theorem membership_lookup_error_witness:
  "calls (sync example_package (example_hub []) ''cluster2'') = [] \<and>
   result (sync example_package (example_hub []) ''cluster2'') = Return None \<and>
   calls (sync example_package unsynced_hub ''cluster1'') = [] \<and>
   result (sync example_package unsynced_hub ''cluster1'') = Return (Some (Failed ''cache not synced''))"
  using membership_lookup_error
          [of "example_hub []" "''cluster2''" "NotFound ''cluster2''" example_package]
        membership_lookup_error
          [of unsynced_hub "''cluster1''" "Failed ''cache not synced''" example_package]
  by (simp add: example_defs)

text \<open>
  C1. Staging invariant: if a run of \<^verbatim>\<open>sync\<close> sends a create or update call for the
  stage-2 (MCH) work object, or compares it, then the stage-1 work object that this run read
  from the work lister has a manifest condition of kind \<^verbatim>\<open>Subscription\<close> with a feedback
  value named \<^verbatim>\<open>state\<close> whose string is \<^verbatim>\<open>AtLatestKnown\<close>. So without such a value the
  run ends after the stage-1 handling, with no stage-2 action.
\<close>

theorem staging_invariant:
  assumes "(\<exists>w\<in>set (calls (sync p c k)). call_stage w = MCH) \<or>
           (\<exists>x\<in>set (compares (sync p c k)). fst x = MCH)"
  shows "\<exists>subscription.
           workLister c k (k @ ''-'' @ HOH_HUB_CLUSTER_SUBSCRIPTION p) = Inr subscription \<and>
           (\<exists>m\<in>set (Manifests subscription). Kind m = ''Subscription'' \<and>
              (\<exists>v\<in>set (Values m). FeedbackName v = ''state'' \<and>
                 StringPtr v = Some ''AtLatestKnown''))"
  using assms
proof
  assume "\<exists>w\<in>set (calls (sync p c k)). call_stage w = MCH"
  then obtain w where "w \<in> set (calls (sync p c k))" and "call_stage w = MCH"
    by blast
  then show ?thesis
    using sync_call_origin [of w p c k] by (auto dest: manifests_verdict_Proceed)
next
  assume "\<exists>x\<in>set (compares (sync p c k)). fst x = MCH"
  then obtain x where "x \<in> set (compares (sync p c k))" and "fst x = MCH"
    by blast
  then show ?thesis
    using sync_compare_origin [of x p c k] by (auto dest: manifests_verdict_Proceed)
qed

theorem staging_invariant_witness:
  "calls (sync example_package
            (example_hub [subscription_work ''subscription'' (Some ''AtLatestKnown'')]) ''cluster1'') =
     [CreateCall MCH ''cluster1''
        \<lparr>ObjectMeta = example_meta ''cluster1'' ''cluster1-mch'' [], Spec = ''mch '',
         Manifests = []\<rparr>] \<and>
   (\<exists>subscription.
      workLister (example_hub [subscription_work ''subscription'' (Some ''AtLatestKnown'')])
        ''cluster1'' (''cluster1'' @ ''-'' @ HOH_HUB_CLUSTER_SUBSCRIPTION example_package)
        = Inr subscription \<and>
      (\<exists>m\<in>set (Manifests subscription). Kind m = ''Subscription'' \<and>
         (\<exists>v\<in>set (Values m). FeedbackName v = ''state'' \<and>
            StringPtr v = Some ''AtLatestKnown'')))"
proof -
  have sent: "calls (sync example_package
            (example_hub [subscription_work ''subscription'' (Some ''AtLatestKnown'')]) ''cluster1'') =
     [CreateCall MCH ''cluster1''
        \<lparr>ObjectMeta = example_meta ''cluster1'' ''cluster1-mch'' [], Spec = ''mch '',
         Manifests = []\<rparr>]"
    by (simp add: sync_defs example_defs)
  then have "(\<exists>w\<in>set (calls (sync example_package
            (example_hub [subscription_work ''subscription'' (Some ''AtLatestKnown'')]) ''cluster1'')).
               call_stage w = MCH) \<or>
             (\<exists>x\<in>set (compares (sync example_package
            (example_hub [subscription_work ''subscription'' (Some ''AtLatestKnown'')]) ''cluster1'')).
               fst x = MCH)"
    by simp
  from staging_invariant [OF this] sent show ?thesis
    by blast
qed

text \<open>
  C2. On the hub of the example, the stage-1 work object reports \<^verbatim>\<open>AtLatestKnown\<close> and is
  equal to the desired one, and no stage-2 work object exists. \<^verbatim>\<open>sync\<close> sends the create
  call for the stage-2 object, the API server accepts it, and \<^verbatim>\<open>sync\<close> returns the
  not-found error of the lookup; the stage-2 object is not compared.
\<close>

theorem stage2_not_found_surfaced:
  "calls (sync example_package
            (example_hub [subscription_work ''subscription'' (Some ''AtLatestKnown'')]) ''cluster1'') =
     [CreateCall MCH ''cluster1''
        \<lparr>ObjectMeta = example_meta ''cluster1'' ''cluster1-mch'' [], Spec = ''mch '',
         Manifests = []\<rparr>] \<and>
   Create (workclient (example_hub [subscription_work ''subscription'' (Some ''AtLatestKnown'')]))
      ''cluster1''
      \<lparr>ObjectMeta = example_meta ''cluster1'' ''cluster1-mch'' [], Spec = ''mch '',
       Manifests = []\<rparr> =
     Inr \<lparr>ObjectMeta = example_meta ''cluster1'' ''cluster1-mch'' ''1'', Spec = ''mch '',
          Manifests = []\<rparr> \<and>
   compares (sync example_package
            (example_hub [subscription_work ''subscription'' (Some ''AtLatestKnown'')]) ''cluster1'') =
     [(Subscription, subscription_work ''subscription'' (Some ''AtLatestKnown''),
       \<lparr>ObjectMeta = example_meta ''cluster1'' ''cluster1-sub'' [], Spec = ''subscription'',
        Manifests = []\<rparr>)] \<and>
   result (sync example_package
            (example_hub [subscription_work ''subscription'' (Some ''AtLatestKnown'')]) ''cluster1'') =
     Return (Some (NotFound ''cluster1-mch''))"
  by (simp add: sync_defs example_defs)

text \<open>
  C3. The feedback scan of \<^verbatim>\<open>sync\<close> dereferences the string pointer of a feedback value
  named \<^verbatim>\<open>state\<close> under a manifest condition of kind \<^verbatim>\<open>Subscription\<close> without a nil
  check. If every such value of the stage-1 work object has a string, \<^verbatim>\<open>sync\<close> does not
  panic. If \<^verbatim>\<open>sync\<close> reaches the scan and the scan reaches such a value without a string
  (no earlier such value is nil or \<^verbatim>\<open>AtLatestKnown\<close>), \<^verbatim>\<open>sync\<close> panics.
\<close>

theorem gate_nil_dereference:
  "((\<forall>subscription. workLister c k (k @ ''-'' @ HOH_HUB_CLUSTER_SUBSCRIPTION p) = Inr subscription \<longrightarrow>
       (\<forall>m\<in>set (Manifests subscription). Kind m = ''Subscription'' \<longrightarrow>
          (\<forall>v\<in>set (Values m). FeedbackName v = ''state'' \<longrightarrow> StringPtr v \<noteq> None)))
     \<longrightarrow> result (sync p c k) \<noteq> Panic) \<and>
   (clusterLister c k = Inr mc \<and>
    workLister c k (k @ ''-'' @ HOH_HUB_CLUSTER_SUBSCRIPTION p) = Inr subscription \<and>
    EnsureManifestWork p subscription (CreateSubManifestwork p k) = Inr updated \<and>
    (updated \<longrightarrow> (\<exists>refreshed. Update (workclient c) k
            ((CreateSubManifestwork p k)\<lparr>ObjectMeta := (ObjectMeta (CreateSubManifestwork p k))
               \<lparr>ResourceVersion := ResourceVersion (ObjectMeta subscription)\<rparr>\<rparr>) = Inr refreshed)) \<and>
    Manifests subscription = before @ m # after \<and> Kind m = ''Subscription'' \<and>
    Values m = vbefore @ v # vafter \<and> FeedbackName v = ''state'' \<and> StringPtr v = None \<and>
    (\<forall>m'\<in>set before. Kind m' = ''Subscription'' \<longrightarrow>
       (\<forall>v'\<in>set (Values m'). FeedbackName v' = ''state'' \<longrightarrow>
          (\<exists>s. StringPtr v' = Some s \<and> s \<noteq> ''AtLatestKnown''))) \<and>
    (\<forall>v'\<in>set vbefore. FeedbackName v' = ''state'' \<longrightarrow>
       (\<exists>s. StringPtr v' = Some s \<and> s \<noteq> ''AtLatestKnown''))
     \<longrightarrow> result (sync p c k) = Panic)"
proof (intro conjI impI)
  assume present: "\<forall>subscription. workLister c k (k @ ''-'' @ HOH_HUB_CLUSTER_SUBSCRIPTION p) = Inr subscription \<longrightarrow>
       (\<forall>m\<in>set (Manifests subscription). Kind m = ''Subscription'' \<longrightarrow>
          (\<forall>v\<in>set (Values m). FeedbackName v = ''state'' \<longrightarrow> StringPtr v \<noteq> None))"
  show "result (sync p c k) \<noteq> Panic"
  proof
    assume "result (sync p c k) = Panic"
    then obtain subscription where
      "workLister c k (k @ ''-'' @ HOH_HUB_CLUSTER_SUBSCRIPTION p) = Inr subscription"
      "manifests_verdict (Manifests subscription) = NilDereference"
      using sync_panic_origin by blast
    with present show False
      using manifests_verdict_NilDereference [of "Manifests subscription"] by blast
  qed
next
  assume reached: "clusterLister c k = Inr mc \<and>
    workLister c k (k @ ''-'' @ HOH_HUB_CLUSTER_SUBSCRIPTION p) = Inr subscription \<and>
    EnsureManifestWork p subscription (CreateSubManifestwork p k) = Inr updated \<and>
    (updated \<longrightarrow> (\<exists>refreshed. Update (workclient c) k
            ((CreateSubManifestwork p k)\<lparr>ObjectMeta := (ObjectMeta (CreateSubManifestwork p k))
               \<lparr>ResourceVersion := ResourceVersion (ObjectMeta subscription)\<rparr>\<rparr>) = Inr refreshed)) \<and>
    Manifests subscription = before @ m # after \<and> Kind m = ''Subscription'' \<and>
    Values m = vbefore @ v # vafter \<and> FeedbackName v = ''state'' \<and> StringPtr v = None \<and>
    (\<forall>m'\<in>set before. Kind m' = ''Subscription'' \<longrightarrow>
       (\<forall>v'\<in>set (Values m'). FeedbackName v' = ''state'' \<longrightarrow>
          (\<exists>s. StringPtr v' = Some s \<and> s \<noteq> ''AtLatestKnown''))) \<and>
    (\<forall>v'\<in>set vbefore. FeedbackName v' = ''state'' \<longrightarrow>
       (\<exists>s. StringPtr v' = Some s \<and> s \<noteq> ''AtLatestKnown''))"
  then have "values_verdict (Values m) = NilDereference"
    using values_verdict_reaches_nil [of vbefore v vafter] by simp
  with reached have "manifests_verdict (Manifests subscription) = NilDereference"
    using manifests_verdict_reaches_nil [of before m after] by simp
  moreover from reached have
    "result (sync p c k) = result (scan_manifests (sync_mch p c k mc) (Manifests subscription))"
    using sync_result_at_gate [of c k mc p subscription updated] by blast
  ultimately show "result (sync p c k) = Panic"
    by (simp add: scan_manifests_verdict)
qed

theorem gate_nil_dereference_witness:
  "result (sync example_package
             (example_hub [subscription_work ''subscription'' (Some ''Progressing'')]) ''cluster1'')
     \<noteq> Panic \<and>
   result (sync example_package
             (example_hub [subscription_work ''subscription'' None]) ''cluster1'') = Panic"
proof
  show "result (sync example_package
             (example_hub [subscription_work ''subscription'' (Some ''Progressing'')]) ''cluster1'')
     \<noteq> Panic"
    using gate_nil_dereference
            [where c = "example_hub [subscription_work ''subscription'' (Some ''Progressing'')]"
               and k = "''cluster1''" and p = example_package, THEN conjunct1]
    by (simp add: example_defs)
next
  show "result (sync example_package
             (example_hub [subscription_work ''subscription'' None]) ''cluster1'') = Panic"
    using gate_nil_dereference
            [where c = "example_hub [subscription_work ''subscription'' None]"
               and k = "''cluster1''" and p = example_package and mc = cluster1
               and subscription = "subscription_work ''subscription'' None"
               and updated = False and before = "[]" and m = "example_feedback None"
               and after = "[]" and vbefore = "[]"
               and v = "\<lparr>FeedbackName = ''state'', StringPtr = None\<rparr>" and vafter = "[]",
             THEN conjunct2]
    by (simp add: example_defs)
qed



text \<open>
  C7. Every update call that \<^verbatim>\<open>sync\<close> sends, for the stage-1 and for the stage-2 work
  object alike, goes to the namespace of the queue key and carries the resource version of
  the existing object of that stage, as the work lister returned it in the same run.
\<close>

theorem update_resource_version:
  assumes "UpdateCall s ns w \<in> set (calls (sync p c k))"
  shows "ns = k \<and>
     (\<exists>existing. workLister c k (k @ ''-'' @ stage_suffix p s) = Inr existing \<and>
        ResourceVersion (ObjectMeta w) = ResourceVersion (ObjectMeta existing))"
  using sync_call_origin [OF assms]
  by (auto dest: sync_mch_update)

theorem update_resource_version_witness:
  "UpdateCall MCH ''cluster1''
     \<lparr>ObjectMeta = example_meta ''cluster1'' ''cluster1-mch'' ''7'', Spec = ''mch '',
      Manifests = []\<rparr>
     \<in> set (calls (sync example_package
                     (example_hub [subscription_work ''old'' (Some ''AtLatestKnown''),
                                   mch_work ''old'']) ''cluster1'')) \<and>
   UpdateCall Subscription ''cluster1''
     \<lparr>ObjectMeta = example_meta ''cluster1'' ''cluster1-sub'' ''41'', Spec = ''subscription'',
      Manifests = []\<rparr>
     \<in> set (calls (sync example_package
                     (example_hub [subscription_work ''old'' (Some ''AtLatestKnown''),
                                   mch_work ''old'']) ''cluster1'')) \<and>
   (\<exists>existing.
      workLister (example_hub [subscription_work ''old'' (Some ''AtLatestKnown''), mch_work ''old''])
        ''cluster1'' (''cluster1'' @ ''-'' @ stage_suffix example_package MCH) = Inr existing \<and>
      ResourceVersion (ObjectMeta existing) = ''7'')"
proof -
  have sent: "calls (sync example_package
                     (example_hub [subscription_work ''old'' (Some ''AtLatestKnown''),
                                   mch_work ''old'']) ''cluster1'') =
     [UpdateCall Subscription ''cluster1''
        \<lparr>ObjectMeta = example_meta ''cluster1'' ''cluster1-sub'' ''41'', Spec = ''subscription'',
         Manifests = []\<rparr>,
      UpdateCall MCH ''cluster1''
        \<lparr>ObjectMeta = example_meta ''cluster1'' ''cluster1-mch'' ''7'', Spec = ''mch '',
         Manifests = []\<rparr>]"
    by (simp add: sync_defs example_defs)
  then have "UpdateCall MCH ''cluster1''
     \<lparr>ObjectMeta = example_meta ''cluster1'' ''cluster1-mch'' ''7'', Spec = ''mch '',
      Manifests = []\<rparr>
     \<in> set (calls (sync example_package
                     (example_hub [subscription_work ''old'' (Some ''AtLatestKnown''),
                                   mch_work ''old'']) ''cluster1''))"
    by simp
  from update_resource_version [OF this] sent show ?thesis
    by (auto simp: example_meta_def)
qed

text \<open>
  C8, as stated, fails: the hub of the example has the cluster but no stage-1 work object,
  and its API server refuses every call. The run sends a create call, the call fails and
  changes nothing, and the next run sends the same create call again.
\<close>

theorem refused_create_repeated:
  "settled example_package refusing_hub ''cluster1'' = refusing_hub \<and>
   calls (sync example_package refusing_hub ''cluster1'') =
     [CreateCall Subscription ''cluster1''
        \<lparr>ObjectMeta = example_meta ''cluster1'' ''cluster1-sub'' [], Spec = ''subscription'',
         Manifests = []\<rparr>] \<and>
   calls (sync example_package (settled example_package refusing_hub ''cluster1'') ''cluster1'') =
     [CreateCall Subscription ''cluster1''
        \<lparr>ObjectMeta = example_meta ''cluster1'' ''cluster1-sub'' [], Spec = ''subscription'',
         Manifests = []\<rparr>]"
proof -
  have sent: "calls (sync example_package refusing_hub ''cluster1'') =
     [CreateCall Subscription ''cluster1''
        \<lparr>ObjectMeta = example_meta ''cluster1'' ''cluster1-sub'' [], Spec = ''subscription'',
         Manifests = []\<rparr>]"
    by (simp add: sync_defs example_defs)
  have "settled example_package refusing_hub ''cluster1'' = refusing_hub"
    unfolding settled_def sent
    by (simp add: observe_def refusing_hub_def NewHubClusterController_def refusing_server_def)
  with sent show ?thesis by simp
qed

text \<open>
  C8, amended. Idempotence: suppose every call of a run of \<^verbatim>\<open>sync\<close> succeeds and the work
  lister then returns the objects of the replies; the builders name the desired objects
  after the queue key and the two suffixes, which differ; the comparison reports no
  difference between the object of a reply and the desired object it was written from; a
  created object has no status feedback and an updated object keeps the manifest conditions
  it had. Then the next run for the same key, with no other change, sends no create or
  update call.
\<close>

theorem settled_idempotence:
  assumes succeeded: "\<forall>w\<in>set (calls (sync p c k)). \<exists>stored. reply c w = Inr stored"
    and sub_name: "Name (ObjectMeta (CreateSubManifestwork p k)) = k @ ''-'' @ HOH_HUB_CLUSTER_SUBSCRIPTION p"
    and mch_name: "\<forall>override desired. CreateMCHManifestwork p k override = Inr desired \<longrightarrow>
                     Name (ObjectMeta desired) = k @ ''-'' @ HOH_HUB_CLUSTER_MCH p"
    and suffixes: "HOH_HUB_CLUSTER_SUBSCRIPTION p \<noteq> HOH_HUB_CLUSTER_MCH p"
    and created_equal: "\<forall>ns desired stored. Create (workclient c) ns desired = Inr stored \<longrightarrow>
                     EnsureManifestWork p stored desired = Inr False"
    and updated_equal: "\<forall>ns desired rv stored.
                     Update (workclient c) ns (desired\<lparr>ObjectMeta := (ObjectMeta desired)\<lparr>ResourceVersion := rv\<rparr>\<rparr>) = Inr stored \<longrightarrow>
                     EnsureManifestWork p stored desired = Inr False"
    and created_status: "\<forall>ns desired stored. Create (workclient c) ns desired = Inr stored \<longrightarrow>
                     Manifests stored = []"
    and updated_status: "\<forall>ns w stored existing. Update (workclient c) ns w = Inr stored \<longrightarrow>
                     workLister c ns (Name (ObjectMeta w)) = Inr existing \<longrightarrow>
                     Manifests stored = Manifests existing"
  shows "calls (sync p (settled p c k) k) = []"
proof -
  define desired where "desired = CreateSubManifestwork p k"
  have unchanged: ?thesis if "calls (sync p c k) = []"
    using that by (simp add: settled_def)
  show ?thesis
  proof (cases "clusterLister c k")
    case (Inl err)
    then show ?thesis by (intro unchanged) (simp add: sync_def)
  next
    case cluster: (Inr mc)
    show ?thesis
    proof (cases "workLister c k (k @ ''-'' @ HOH_HUB_CLUSTER_SUBSCRIPTION p)")
      case lookup: (Inl err)
      show ?thesis
      proof (cases "IsNotFound err")
        case False
        with cluster lookup show ?thesis by (intro unchanged) (simp add: sync_def)
      next
        case True
        with cluster lookup have first: "calls (sync p c k) = [CreateCall Subscription k desired]"
          by (simp add: sync_def Let_def desired_def split: sum.splits)
        with succeeded obtain stored where stored: "Create (workclient c) k desired = Inr stored"
          by auto
        define c1 where "c1 = observe c (CreateCall Subscription k desired)"
        have "workLister c1 k (k @ ''-'' @ HOH_HUB_CLUSTER_SUBSCRIPTION p) = Inr stored"
          using stored sub_name by (simp add: c1_def workLister_observe desired_def)
        moreover have "clusterLister c1 k = Inr mc"
          using cluster by (simp add: c1_def)
        moreover have "EnsureManifestWork p stored (CreateSubManifestwork p k) = Inr False"
          using stored created_equal unfolding desired_def by blast
        moreover have "Manifests stored = []"
          using stored created_status by blast
        ultimately have "calls (sync p c1 k) = []"
          using sync_converged [of c1 k mc p stored] by simp
        then show ?thesis by (simp add: settled_def first c1_def)
      qed
    next
      case lookup: (Inr subscription)
      define ws where "ws = (if manifests_verdict (Manifests subscription) = Proceed
                             then calls (sync_mch p c k mc) else [])"
      show ?thesis
      proof (cases "EnsureManifestWork p subscription (CreateSubManifestwork p k)")
        case (Inl err)
        with cluster lookup show ?thesis by (intro unchanged) (simp add: sync_def)
      next
        case ensure: (Inr updated)
        show ?thesis
        proof (cases updated)
          case False
          with cluster lookup ensure have first: "calls (sync p c k) = ws"
            using sync_converged [of c k mc p subscription] by (simp add: ws_def)
          have "calls (sync p (foldl observe c ws) k) = []"
          proof (rule second_run [of c k mc p subscription])
            show "clusterLister c k = Inr mc" by (rule cluster)
            show "workLister c k (k @ ''-'' @ HOH_HUB_CLUSTER_SUBSCRIPTION p) = Inr subscription"
              by (rule lookup)
            show "EnsureManifestWork p subscription (CreateSubManifestwork p k) = Inr False"
              using ensure False by simp
            show "ws = (if manifests_verdict (Manifests subscription) = Proceed
                        then calls (sync_mch p c k mc) else [])"
              by (rule ws_def)
            show "\<forall>w\<in>set ws. \<exists>stored. reply c w = Inr stored"
              using succeeded first by simp
          qed (rule mch_name suffixes created_equal updated_equal)+
          then show ?thesis by (simp add: settled_def first)
        next
          case True
          define desired' where "desired' = desired\<lparr>ObjectMeta := (ObjectMeta desired)
                                      \<lparr>ResourceVersion := ResourceVersion (ObjectMeta subscription)\<rparr>\<rparr>"
          have "UpdateCall Subscription k desired' \<in> set (calls (sync p c k))"
            using sync_diverged_first [of c k mc p subscription] cluster lookup ensure True
            by (simp add: desired'_def desired_def)
          with succeeded obtain stored where stored: "Update (workclient c) k desired' = Inr stored"
            by fastforce
          have first: "calls (sync p c k) = UpdateCall Subscription k desired' # ws"
            using sync_diverged [of c k mc p subscription stored] cluster lookup ensure True stored
            by (simp add: desired'_def desired_def ws_def)
          define c1 where "c1 = observe c (UpdateCall Subscription k desired')"
          have name': "Name (ObjectMeta desired') = k @ ''-'' @ HOH_HUB_CLUSTER_SUBSCRIPTION p"
            using sub_name by (simp add: desired'_def desired_def)
          have client1: "workclient c1 = workclient c"
            by (simp add: c1_def)
          have status: "Manifests stored = Manifests subscription"
            using updated_status [rule_format, of k desired' stored subscription] stored lookup name' by simp
          have mch1: "workLister c1 k (k @ ''-'' @ HOH_HUB_CLUSTER_MCH p) =
                      workLister c k (k @ ''-'' @ HOH_HUB_CLUSTER_MCH p)"
            using stored name' suffixes by (simp add: c1_def workLister_observe)
          have body1: "sync_mch p c1 k mc = sync_mch p c k mc"
            using client1 mch1 by (rule sync_mch_cong)
          have "calls (sync p (foldl observe c1 ws) k) = []"
          proof (rule second_run [of c1 k mc p stored])
            show "clusterLister c1 k = Inr mc"
              using cluster by (simp add: c1_def)
            show "workLister c1 k (k @ ''-'' @ HOH_HUB_CLUSTER_SUBSCRIPTION p) = Inr stored"
              using stored name' by (simp add: c1_def workLister_observe)
            show "EnsureManifestWork p stored (CreateSubManifestwork p k) = Inr False"
              using stored updated_equal unfolding desired'_def desired_def by blast
            show "ws = (if manifests_verdict (Manifests stored) = Proceed
                        then calls (sync_mch p c1 k mc) else [])"
              by (simp add: ws_def status body1)
            show "\<forall>w\<in>set ws. \<exists>stored. reply c1 w = Inr stored"
              using succeeded first by (simp add: reply_cong [OF client1])
            show "\<forall>ns desired stored. Create (workclient c1) ns desired = Inr stored \<longrightarrow>
                     EnsureManifestWork p stored desired = Inr False"
              using created_equal by (simp only: client1)
            show "\<forall>ns desired rv stored.
                     Update (workclient c1) ns (desired\<lparr>ObjectMeta := (ObjectMeta desired)\<lparr>ResourceVersion := rv\<rparr>\<rparr>) = Inr stored \<longrightarrow>
                     EnsureManifestWork p stored desired = Inr False"
              using updated_equal by (simp only: client1)
          qed (rule mch_name suffixes)+
          then show ?thesis by (simp add: settled_def first c1_def)
        qed
      qed
    qed
  qed
qed

theorem settled_idempotence_witness:
  "calls (sync example_package
            (example_hub [subscription_work ''old'' (Some ''AtLatestKnown'')]) ''cluster1'') =
     [UpdateCall Subscription ''cluster1''
        \<lparr>ObjectMeta = example_meta ''cluster1'' ''cluster1-sub'' ''41'', Spec = ''subscription'',
         Manifests = []\<rparr>,
      CreateCall MCH ''cluster1''
        \<lparr>ObjectMeta = example_meta ''cluster1'' ''cluster1-mch'' [], Spec = ''mch '',
         Manifests = []\<rparr>] \<and>
   calls (sync example_package
            (settled example_package
               (example_hub [subscription_work ''old'' (Some ''AtLatestKnown'')]) ''cluster1'')
            ''cluster1'') = []"
proof
  show sent: "calls (sync example_package
            (example_hub [subscription_work ''old'' (Some ''AtLatestKnown'')]) ''cluster1'') =
     [UpdateCall Subscription ''cluster1''
        \<lparr>ObjectMeta = example_meta ''cluster1'' ''cluster1-sub'' ''41'', Spec = ''subscription'',
         Manifests = []\<rparr>,
      CreateCall MCH ''cluster1''
        \<lparr>ObjectMeta = example_meta ''cluster1'' ''cluster1-mch'' [], Spec = ''mch '',
         Manifests = []\<rparr>]"
    by (simp add: sync_defs example_defs)
  show "calls (sync example_package
            (settled example_package
               (example_hub [subscription_work ''old'' (Some ''AtLatestKnown'')]) ''cluster1'')
            ''cluster1'') = []"
  proof (rule settled_idempotence)
    show "\<forall>w\<in>set (calls (sync example_package
            (example_hub [subscription_work ''old'' (Some ''AtLatestKnown'')]) ''cluster1'')).
            \<exists>stored. reply (example_hub [subscription_work ''old'' (Some ''AtLatestKnown'')]) w
                       = Inr stored"
      unfolding sent by (simp add: example_defs)
    show "Name (ObjectMeta (CreateSubManifestwork example_package ''cluster1'')) =
            ''cluster1'' @ ''-'' @ HOH_HUB_CLUSTER_SUBSCRIPTION example_package"
      by (simp add: example_package_def example_meta_def)
    show "\<forall>override desired.
            CreateMCHManifestwork example_package ''cluster1'' override = Inr desired \<longrightarrow>
            Name (ObjectMeta desired) = ''cluster1'' @ ''-'' @ HOH_HUB_CLUSTER_MCH example_package"
      by (auto simp: example_package_def example_meta_def split: if_splits)
    show "HOH_HUB_CLUSTER_SUBSCRIPTION example_package \<noteq> HOH_HUB_CLUSTER_MCH example_package"
      by (simp add: example_package_def)
    show "\<forall>ns desired stored.
            Create (workclient (example_hub [subscription_work ''old'' (Some ''AtLatestKnown'')]))
              ns desired = Inr stored \<longrightarrow>
            EnsureManifestWork example_package stored desired = Inr False"
      using api_server_created_equal
      by (simp add: example_hub_def NewHubClusterController_def)
    show "\<forall>ns desired rv stored.
            Update (workclient (example_hub [subscription_work ''old'' (Some ''AtLatestKnown'')])) ns
              (desired\<lparr>ObjectMeta := (ObjectMeta desired)\<lparr>ResourceVersion := rv\<rparr>\<rparr>) = Inr stored \<longrightarrow>
            EnsureManifestWork example_package stored desired = Inr False"
      using api_server_updated_equal
      by (simp add: example_hub_def NewHubClusterController_def)
    show "\<forall>ns desired stored.
            Create (workclient (example_hub [subscription_work ''old'' (Some ''AtLatestKnown'')]))
              ns desired = Inr stored \<longrightarrow>
            Manifests stored = []"
      using api_server_created_status
      by (simp add: example_hub_def NewHubClusterController_def)
    show "\<forall>ns w stored existing.
            Update (workclient (example_hub [subscription_work ''old'' (Some ''AtLatestKnown'')]))
              ns w = Inr stored \<longrightarrow>
            workLister (example_hub [subscription_work ''old'' (Some ''AtLatestKnown'')])
              ns (Name (ObjectMeta w)) = Inr existing \<longrightarrow>
            Manifests stored = Manifests existing"
      using api_server_updated_status
      by (simp add: example_hub_def NewHubClusterController_def)
  qed
qed

text \<open>
  C10, as stated, fails: on the hub of the example the controller is built with an empty
  resource cache. A run of \<^verbatim>\<open>sync\<close> calls the comparison with the existing and the desired
  stage-1 object and sends no call; at the next run the resource cache is still empty and
  the comparison is called again with the same two objects.
\<close>

theorem comparison_repeated:
  "cache (example_hub [subscription_work ''subscription'' (Some ''Progressing'')]) = [] \<and>
   compares (sync example_package
               (example_hub [subscription_work ''subscription'' (Some ''Progressing'')]) ''cluster1'') =
     [(Subscription, subscription_work ''subscription'' (Some ''Progressing''),
       \<lparr>ObjectMeta = example_meta ''cluster1'' ''cluster1-sub'' [], Spec = ''subscription'',
        Manifests = []\<rparr>)] \<and>
   calls (sync example_package
            (example_hub [subscription_work ''subscription'' (Some ''Progressing'')]) ''cluster1'') = [] \<and>
   cache (settled example_package
            (example_hub [subscription_work ''subscription'' (Some ''Progressing'')]) ''cluster1'') = [] \<and>
   compares (sync example_package
               (settled example_package
                  (example_hub [subscription_work ''subscription'' (Some ''Progressing'')]) ''cluster1'')
               ''cluster1'') =
     [(Subscription, subscription_work ''subscription'' (Some ''Progressing''),
       \<lparr>ObjectMeta = example_meta ''cluster1'' ''cluster1-sub'' [], Spec = ''subscription'',
        Manifests = []\<rparr>)]"
proof -
  have sent: "calls (sync example_package
            (example_hub [subscription_work ''subscription'' (Some ''Progressing'')]) ''cluster1'') = []"
    by (simp add: sync_defs example_defs)
  have same: "settled example_package
            (example_hub [subscription_work ''subscription'' (Some ''Progressing'')]) ''cluster1'' =
          example_hub [subscription_work ''subscription'' (Some ''Progressing'')]"
    unfolding settled_def sent by simp
  show ?thesis
    unfolding same by (simp add: sync_defs example_defs)
qed

text \<open>
  C10, amended. \<^verbatim>\<open>sync\<close> calls the comparison with the existing and the desired object
  only: what a run sends, compares and returns does not depend on the content of the
  resource cache of the controller.
\<close>

theorem sync_ignores_cache:
  "sync p (c\<lparr>cache := x\<rparr>) k = sync p c k"
  by (rule sync_cong) simp_all

theorem sync_ignores_cache_witness:
  "sync example_package
     ((example_hub [subscription_work ''subscription'' (Some ''Progressing'')])
        \<lparr>cache := [(''fingerprint'', ''equal'')]\<rparr>) ''cluster1'' =
   sync example_package
     (example_hub [subscription_work ''subscription'' (Some ''Progressing'')]) ''cluster1''"
  using sync_ignores_cache
          [where p = example_package
             and c = "example_hub [subscription_work ''subscription'' (Some ''Progressing'')]"
             and x = "[(''fingerprint'', ''equal'')]" and k = "''cluster1''"]
  by simp

end
